theory Spec2Isabelle
  imports Complex_Main "HOL-Library.Word" "HOL-Library.Char_ord" "HOL-Library.List_Lexorder"
begin

section \<open>Go values held in a row cell\<close>

text \<open>
  The export service (\<^verbatim>\<open>internal/services/export.go\<close>) works on
  \<^verbatim>\<open>[]map[string]interface{}\<close>. The rows are produced by \<^verbatim>\<open>json.Unmarshal\<close>
  (see \<^verbatim>\<open>handlers.ExportMockData\<close>), so a cell holds \<^verbatim>\<open>nil\<close>, a \<^verbatim>\<open>string\<close>,
  a \<^verbatim>\<open>float64\<close>, a \<^verbatim>\<open>bool\<close>, a \<^verbatim>\<open>[]interface{}\<close> or a
  \<^verbatim>\<open>map[string]interface{}\<close>.

  A Go \<^verbatim>\<open>string\<close> is a byte sequence: it is an Isabelle \<^typ>\<open>string\<close>.
  A \<^verbatim>\<open>float64\<close> is modelled by its three IEEE 754 binary64 fields (sign, biased
  exponent, fraction), so that every value of the type is a \<^verbatim>\<open>float64\<close> and
  every \<^verbatim>\<open>float64\<close> is a value of the type.
\<close>

datatype float64 = F64 bool "11 word" "52 word"

datatype "value" =
    Null
  | Str string
  | Num float64
  | Bool bool
  | Arr "value list"
  | Obj "(string \<times> value) list"

text \<open>
  A Go map has no order and no duplicate keys. A row is modelled by an association list that
  is only ever read through \<^const>\<open>map_of\<close> (a lookup) or through its sorted key set.
  \<^verbatim>\<open>row[field]\<close> on a missing key yields the zero value of \<^verbatim>\<open>interface{}\<close>,
  which is \<^verbatim>\<open>nil\<close>.
\<close>

type_synonym row = "(string \<times> value) list"

definition index :: "row \<Rightarrow> string \<Rightarrow> value" where
  "index r k = (case map_of r k of None \<Rightarrow> Null | Some v \<Rightarrow> v)"

section \<open>The float64 operations the exporter uses\<close>

fun f64_sign :: "float64 \<Rightarrow> bool" where
  "f64_sign (F64 s e f) = s"

fun f64_is_nan :: "float64 \<Rightarrow> bool" where
  "f64_is_nan (F64 s e f) = (e = 2047 \<and> f \<noteq> 0)"

fun f64_is_inf :: "float64 \<Rightarrow> bool" where
  "f64_is_inf (F64 s e f) = (e = 2047 \<and> f = 0)"

fun f64_finite :: "float64 \<Rightarrow> bool" where
  "f64_finite (F64 s e f) = (e \<noteq> 2047)"

text \<open>
  A finite \<^verbatim>\<open>float64\<close> has the value \<open>(-1)^sign * mant * 2^exp\<close> with the integer
  mantissa and exponent below (subnormals have biased exponent \<open>0\<close>).
\<close>

fun f64_mant :: "float64 \<Rightarrow> nat" where
  "f64_mant (F64 s e f) = (if e = 0 then unat f else 2 ^ 52 + unat f)"

fun f64_exp :: "float64 \<Rightarrow> int" where
  "f64_exp (F64 s e f) = (if e = 0 then - 1074 else int (unat e) - 1075)"

definition f64_is_zero :: "float64 \<Rightarrow> bool" where
  "f64_is_zero x = (f64_finite x \<and> f64_mant x = 0)"

text \<open>The Go comparison \<^verbatim>\<open>a == b\<close> on \<^verbatim>\<open>float64\<close>: a NaN equals nothing, the two
  zeros are equal, otherwise the values are equal exactly when the fields are.\<close>

definition f64_eq :: "float64 \<Rightarrow> float64 \<Rightarrow> bool" where
  "f64_eq a b = (\<not> f64_is_nan a \<and> \<not> f64_is_nan b \<and> (a = b \<or> (f64_is_zero a \<and> f64_is_zero b)))"

text \<open>Truncation toward zero of a finite value.\<close>

definition f64_trunc :: "float64 \<Rightarrow> int" where
  "f64_trunc x =
     (let a = (if 0 \<le> f64_exp x then int (f64_mant x) * 2 ^ nat (f64_exp x)
               else int (f64_mant x) div 2 ^ nat (- f64_exp x))
      in if f64_sign x then - a else a)"

text \<open>
  The conversion \<^verbatim>\<open>int64(v)\<close>. The Go specification: the fraction is discarded
  (truncation toward zero); if the result type cannot represent the value, the conversion
  succeeds but the result is implementation-dependent. That result is the parameter
  \<open>oor\<close> (on amd64 it is \<open>0x8000000000000000\<close> for every such \<open>v\<close>).
\<close>

definition int64_of_float64 :: "(float64 \<Rightarrow> 64 word) \<Rightarrow> float64 \<Rightarrow> 64 word" where
  "int64_of_float64 oor v =
     (if f64_finite v \<and> - (2 ^ 63) \<le> f64_trunc v \<and> f64_trunc v < 2 ^ 63
      then word_of_int (f64_trunc v) else oor v)"

fun bitlen :: "nat \<Rightarrow> nat" where
  "bitlen n = (if n < 1 then 0 else 1 + bitlen (n div 2))"

text \<open>
  The conversion \<^verbatim>\<open>float64(i)\<close> of an \<^verbatim>\<open>int64\<close>: the nearest \<^verbatim>\<open>float64\<close>, ties
  to the even mantissa. An \<^verbatim>\<open>int64\<close> has at most 64 bits, so the result is finite and
  normal (or zero).
\<close>

definition float64_of_int64 :: "64 word \<Rightarrow> float64" where
  "float64_of_int64 w =
     (let i = sint w; a = nat \<bar>i\<bar>; n = bitlen a in
      if a = 0 then F64 False 0 0
      else if n \<le> 53 then F64 (i < 0) (of_nat (1022 + n)) (of_nat (a * 2 ^ (53 - n) - 2 ^ 52))
      else
        let sh = n - 53; q = a div 2 ^ sh; r = a mod 2 ^ sh; h = 2 ^ (sh - 1);
            q' = (if h < r \<or> (r = h \<and> odd q) then q + 1 else q)
        in if q' = 2 ^ 53 then F64 (i < 0) (of_nat (1023 + n)) 0
           else F64 (i < 0) (of_nat (1022 + n)) (of_nat (q' - 2 ^ 52)))"

section \<open>Formatting verbs of package fmt\<close>

definition digit_char :: "nat \<Rightarrow> char" where
  "digit_char d = ''0123456789'' ! d"

fun show_nat :: "nat \<Rightarrow> string" where
  "show_nat n = (if n < 10 then [digit_char n] else show_nat (n div 10) @ [digit_char (n mod 10)])"

definition show_int :: "int \<Rightarrow> string" where
  "show_int i = (if i < 0 then CHR ''-'' # show_nat (nat (- i)) else show_nat (nat i))"

text \<open>\<^verbatim>\<open>fmt.Sprintf("%d", i)\<close> for an \<^verbatim>\<open>int64\<close>: the decimal digits of the signed value.\<close>

definition fmt_d :: "64 word \<Rightarrow> string" where
  "fmt_d w = show_int (sint w)"

subsection \<open>The verb \<^verbatim>\<open>%v\<close> on a float64\<close>

text \<open>
  Package fmt prints a \<^verbatim>\<open>float64\<close> under \<^verbatim>\<open>%v\<close> as \<^verbatim>\<open>strconv.FormatFloat(x, 'g', -1, 64)\<close>
  (a positive infinity keeps its plus sign): the shortest decimal digit string that
  identifies the value among all \<^verbatim>\<open>float64\<close>, laid out in exponent form when the decimal
  exponent is below \<open>-4\<close> or at least \<open>6\<close>, in positional form otherwise. The library is
  not part of the repository; it is modelled here with exact integer arithmetic.
\<close>

text \<open>
  A finite nonzero value is \<open>mant * 2^exp\<close>. The reals that round to it form the interval
  between the midpoints to its two neighbours; the ends belong to the interval when the
  mantissa is even. In units of \<open>2^(exp - 2)\<close> the value is \<open>4 * mant\<close>, the upper
  end \<open>4 * mant + 2\<close> and the lower end \<open>4 * mant - 2\<close>, or \<open>4 * mant - 1\<close> when the
  value is a power of two (the neighbour below is then at half the distance).
\<close>

fun f64_lo4 :: "float64 \<Rightarrow> nat" where
  "f64_lo4 (F64 s e f) =
     (if f = 0 \<and> 1 < unat e then 4 * f64_mant (F64 s e f) - 1 else 4 * f64_mant (F64 s e f) - 2)"

definition f64_hi4 :: "float64 \<Rightarrow> nat" where
  "f64_hi4 x = 4 * f64_mant x + 2"

text \<open>Comparing a decimal \<open>c * 10^k\<close> with a binary \<open>n * 2^E\<close> in integers: with
  \<open>(A, B) = f64_scale E k\<close>, the first is below the second exactly when \<open>c * A < n * B\<close>.\<close>

definition f64_scale :: "int \<Rightarrow> int \<Rightarrow> nat \<times> nat" where
  "f64_scale E k = (10 ^ nat k * 2 ^ nat (- E), 2 ^ nat E * 10 ^ nat (- k))"

definition rounds_to :: "float64 \<Rightarrow> nat \<Rightarrow> nat \<Rightarrow> nat \<Rightarrow> bool" where
  "rounds_to x A B c =
     (if even (f64_mant x) then f64_lo4 x * B \<le> c * A \<and> c * A \<le> f64_hi4 x * B
      else f64_lo4 x * B < c * A \<and> c * A < f64_hi4 x * B)"

text \<open>The decimal exponent \<open>p\<close> of a positive value \<open>a = m * 2^e\<close>: \<open>10^p \<le> a < 10^(p+1)\<close>.
  For \<open>a \<ge> 1\<close> it is the number of digits of the integer part, less one; for \<open>a < 1\<close> it
  is read off the integer part of \<open>1 / a\<close>.\<close>

definition dec_exp :: "nat \<Rightarrow> int \<Rightarrow> int" where
  "dec_exp m e =
     (let ip = (if 0 \<le> e then m * 2 ^ nat e else m div 2 ^ nat (- e)) in
      if 1 \<le> ip then int (length (show_nat ip)) - 1
      else let d = length (show_nat (2 ^ nat (- e) div m))
           in if m * 10 ^ (d - 1) = 2 ^ nat (- e) then - int (d - 1) else - int d)"

text \<open>The decimals \<open>c * 10^k\<close> with \<open>n\<close> digits next to \<open>x\<close> (below and above); of those
  that round to \<open>x\<close>, the nearer one (the even one on a tie).\<close>

definition digits_cand :: "float64 \<Rightarrow> int \<Rightarrow> nat \<Rightarrow> (nat \<times> int) option" where
  "digits_cand x p n =
     (let k = p - int n + 1;
          (A, B) = f64_scale (f64_exp x - 2) k;
          V = 4 * f64_mant x * B;
          cl = V div A; cu = (if A dvd V then cl else cl + 1);
          okl = rounds_to x A B cl; oku = rounds_to x A B cu
      in if okl \<and> oku
         then Some (if V - cl * A < cu * A - V then cl
                    else if cu * A - V < V - cl * A then cu
                    else if even cl then cl else cu, k)
         else if okl then Some (cl, k)
         else if oku then Some (cu, k)
         else None)"

fun first_cand :: "float64 \<Rightarrow> int \<Rightarrow> nat list \<Rightarrow> (nat \<times> int) option" where
  "first_cand x p [] = None"
| "first_cand x p (n # ns) =
     (case digits_cand x p n of Some r \<Rightarrow> Some r | None \<Rightarrow> first_cand x p ns)"

text \<open>Seventeen digits always identify a \<^verbatim>\<open>float64\<close>; the search tries one digit, then two,
  and so on. The digits \<open>d\<close> and the position \<open>dp\<close> of the decimal point are those of the
  \<^verbatim>\<open>decimalSlice\<close> of strconv: the value printed is \<open>0.d * 10^dp\<close>, and \<open>d\<close> has no
  trailing zero.\<close>

definition shortest_digits :: "float64 \<Rightarrow> string \<times> int" where
  "shortest_digits x =
     (let p = dec_exp (f64_mant x) (f64_exp x);
          (c, k) = (case first_cand x p [1, 2, 3, 4, 5, 6, 7, 8, 9, 10, 11, 12, 13, 14, 15, 16, 17] of
                      Some r \<Rightarrow> r
                    | None \<Rightarrow>
                        (case f64_scale (f64_exp x - 2) (p - 16) of (A, B) \<Rightarrow>
                           ((8 * f64_mant x * B + A) div (2 * A), p - 16)));
          ds = show_nat c
      in (rev (dropWhile (\<lambda>d. d = CHR ''0'') (rev ds)), k + int (length ds)))"

definition fmtE :: "string \<Rightarrow> int \<Rightarrow> string" where
  "fmtE ds dp =
     (let e = dp - 1 in
      [hd ds] @ (if 1 < length ds then CHR ''.'' # tl ds else [])
      @ [CHR ''e'', if e < 0 then CHR ''-'' else CHR ''+'']
      @ (if \<bar>e\<bar> < 10 then CHR ''0'' # show_nat (nat \<bar>e\<bar>) else show_nat (nat \<bar>e\<bar>)))"

text \<open>\<^verbatim>\<open>%f\<close> with the precision \<open>max (nd - dp) 0\<close> that the shortest form uses: the integer
  part (padded with zeros, or a single zero), then a point and the remaining digits, if any.\<close>

definition fmtF :: "string \<Rightarrow> int \<Rightarrow> string" where
  "fmtF ds dp =
     (let nd = length ds;
          frac = (if dp \<le> 0 then replicate (nat (- dp)) CHR ''0'' @ ds else drop (nat dp) ds)
      in (if 0 < dp then take (nat dp) ds @ replicate (nat dp - nd) CHR ''0'' else [CHR ''0''])
         @ (if frac \<noteq> [] then CHR ''.'' # frac else []))"

definition fmt_v_float :: "float64 \<Rightarrow> string" where
  "fmt_v_float x =
     (if f64_is_nan x then ''NaN''
      else if f64_is_inf x then (if f64_sign x then ''-Inf'' else ''+Inf'')
      else (if f64_sign x then ''-'' else [])
           @ (if f64_mant x = 0 then ''0''
              else case shortest_digits x of (ds, dp) \<Rightarrow>
                     if dp - 1 < - 4 \<or> 6 \<le> dp - 1 then fmtE ds dp else fmtF ds dp))"


subsection \<open>The verb \<^verbatim>\<open>%v\<close> on the other values\<close>

text \<open>The keys of a map in increasing order, each once, with the value the map holds for it.
  Package fmt and package json both visit a map in this order.\<close>

definition entries :: "(string \<times> 'a) list \<Rightarrow> (string \<times> 'a) list" where
  "entries kvs = map (\<lambda>k. (k, the (map_of kvs k))) (sort (remdups (map fst kvs)))"

text \<open>\<^verbatim>\<open>strings.Join(elems, sep)\<close>.\<close>

fun join :: "string list \<Rightarrow> string \<Rightarrow> string" where
  "join [] sep = []"
| "join [x] sep = x"
| "join (x # y # ys) sep = x @ sep @ join (y # ys) sep"

lemma map_of_the_mem: "k \<in> fst ` set kvs \<Longrightarrow> (k, the (map_of kvs k)) \<in> set kvs"
proof -
  assume "k \<in> fst ` set kvs"
  then obtain v where "map_of kvs k = Some v"
    by (cases "map_of kvs k") (auto simp: map_of_eq_None_iff)
  then show ?thesis by (auto dest: map_of_SomeD)
qed

lemma entries_subset: "set (entries kvs) \<subseteq> set kvs"
  by (auto simp: entries_def intro: map_of_the_mem [unfolded image_iff, OF bexI])

lemma size_value_entries:
  "(k, v) \<in> set (entries kvs) \<Longrightarrow> size v < Suc (size_list (size_prod (\<lambda>_. 0) size) kvs)"
proof -
  assume "(k, v) \<in> set (entries kvs)"
  then have "(k, v) \<in> set kvs" using entries_subset by blast
  then have "size_prod (\<lambda>_. 0) size (k, v) \<le> size_list (size_prod (\<lambda>_. 0) size) kvs"
    by (simp add: size_list_estimation')
  then show ?thesis by simp
qed

text \<open>\<^verbatim>\<open>fmt.Sprintf("%v", v)\<close> for the values a cell can hold: a nested \<^verbatim>\<open>nil\<close> prints as
  \<^verbatim>\<open><nil>\<close>, a slice as \<^verbatim>\<open>[a b c]\<close>, a map as \<^verbatim>\<open>map[k:v k:v]\<close> with its keys sorted.\<close>

function fmt_v :: "value \<Rightarrow> string" where
  "fmt_v Null = ''<nil>''"
| "fmt_v (Str s) = s"
| "fmt_v (Num x) = fmt_v_float x"
| "fmt_v (Bool b) = (if b then ''true'' else ''false'')"
| "fmt_v (Arr xs) = ''['' @ join (map fmt_v xs) '' '' @ '']''"
| "fmt_v (Obj kvs) =
     ''map['' @ join (map (\<lambda>(k, v). k @ '':'' @ fmt_v v) (entries kvs)) '' '' @ '']''"
  by pat_completeness auto
termination
  by (relation "measure size") (auto simp: size_list_estimation' less_Suc_eq_le dest: size_value_entries)


section \<open>The export service\<close>

text \<open>The errors the export functions return. \<^verbatim>\<open>fmt.Errorf("no data to export")\<close> is
  the only one that \<^verbatim>\<open>ToCSV\<close>, \<^verbatim>\<open>ToMarkdownTable\<close> and \<^verbatim>\<open>ToSQL\<close> can return: the
  writers they use write to a \<^verbatim>\<open>bytes.Buffer\<close>, which does not fail, and the delimiter
  of the CSV writer is the valid default. A function that fails returns \<^verbatim>\<open>nil\<close> bytes
  and the error: it is \<open>Inl\<close> of the error, which carries no bytes.\<close>

datatype error = ErrNoData | ErrMarshal

fun error_message :: "error \<Rightarrow> string" where
  "error_message ErrNoData = ''no data to export''"
| "error_message ErrMarshal = ''failed to marshal JSON''"

subsection \<open>Formatting one cell\<close>

text \<open>\<^verbatim>\<open>v == float64(int64(v))\<close>.\<close>

definition is_integral :: "(float64 \<Rightarrow> 64 word) \<Rightarrow> float64 \<Rightarrow> bool" where
  "is_integral oor v = f64_eq v (float64_of_int64 (int64_of_float64 oor v))"

fun formatValue :: "(float64 \<Rightarrow> 64 word) \<Rightarrow> value \<Rightarrow> string" where
  "formatValue oor Null = []"
| "formatValue oor (Str v) = v"
| "formatValue oor (Num v) =
     (if is_integral oor v then fmt_d (int64_of_float64 oor v) else fmt_v_float v)"
| "formatValue oor v = fmt_v v"

text \<open>\<^verbatim>\<open>strings.ReplaceAll(v, "'", "''")\<close>: every single quote (byte \<open>0x27\<close>) is doubled.\<close>

definition escape_quotes :: "string \<Rightarrow> string" where
  "escape_quotes v = concat (map (\<lambda>c. if c = CHR 0x27 then [c, c] else [c]) v)"

fun formatSQLValue :: "(float64 \<Rightarrow> 64 word) \<Rightarrow> value \<Rightarrow> string" where
  "formatSQLValue oor Null = ''NULL''"
| "formatSQLValue oor (Str v) = [CHR 0x27] @ escape_quotes v @ [CHR 0x27]"
| "formatSQLValue oor (Num v) =
     (if is_integral oor v then fmt_d (int64_of_float64 oor v) else fmt_v_float v)"
| "formatSQLValue oor (Bool v) = (if v then ''TRUE'' else ''FALSE'')"
| "formatSQLValue oor v = [CHR 0x27] @ fmt_v v @ [CHR 0x27]"

fun inferSQLType :: "value \<Rightarrow> string" where
  "inferSQLType Null = ''TEXT''"
| "inferSQLType (Num v) = ''NUMERIC''"
| "inferSQLType (Bool v) = ''BOOLEAN''"
| "inferSQLType (Str v) = ''TEXT''"
| "inferSQLType v = ''TEXT''"

text \<open>The cells of one row, in the order of the field list.\<close>

definition row_values :: "(value \<Rightarrow> string) \<Rightarrow> row \<Rightarrow> string list \<Rightarrow> string list" where
  "row_values fmt r fieldNames = map (\<lambda>field. fmt (index r field)) fieldNames"

subsection \<open>The writer of package encoding/csv\<close>

text \<open>
  \<^verbatim>\<open>csv.NewWriter\<close> with its defaults (comma, \<^verbatim>\<open>UseCRLF\<close> off). A field is quoted when
  it is \<^verbatim>\<open>\.\<close>, when it holds the delimiter, a double quote, a carriage return or a line
  feed, or when its first rune is a space in the sense of \<^verbatim>\<open>unicode.IsSpace\<close>; the empty
  field is never quoted. Inside the quotes a double quote is doubled. The runes that
  \<^verbatim>\<open>unicode.IsSpace\<close> accepts are listed by their UTF-8 encodings.
\<close>

definition unicode_spaces :: "string list" where
  "unicode_spaces =
     [[CHR 0x09], [CHR 0x0A], [CHR 0x0B], [CHR 0x0C], [CHR 0x0D], [CHR 0x20],
      [CHR 0xC2, CHR 0x85], [CHR 0xC2, CHR 0xA0], [CHR 0xE1, CHR 0x9A, CHR 0x80],
      [CHR 0xE2, CHR 0x80, CHR 0x80], [CHR 0xE2, CHR 0x80, CHR 0x81],
      [CHR 0xE2, CHR 0x80, CHR 0x82], [CHR 0xE2, CHR 0x80, CHR 0x83],
      [CHR 0xE2, CHR 0x80, CHR 0x84], [CHR 0xE2, CHR 0x80, CHR 0x85],
      [CHR 0xE2, CHR 0x80, CHR 0x86], [CHR 0xE2, CHR 0x80, CHR 0x87],
      [CHR 0xE2, CHR 0x80, CHR 0x88], [CHR 0xE2, CHR 0x80, CHR 0x89],
      [CHR 0xE2, CHR 0x80, CHR 0x8A], [CHR 0xE2, CHR 0x80, CHR 0xA8],
      [CHR 0xE2, CHR 0x80, CHR 0xA9], [CHR 0xE2, CHR 0x80, CHR 0xAF],
      [CHR 0xE2, CHR 0x81, CHR 0x9F], [CHR 0xE3, CHR 0x80, CHR 0x80]]"

definition starts_with_space :: "string \<Rightarrow> bool" where
  "starts_with_space field = list_ex (\<lambda>p. take (length p) field = p) unicode_spaces"

definition fieldNeedsQuotes :: "string \<Rightarrow> bool" where
  "fieldNeedsQuotes field =
     (field \<noteq> [] \<and>
      (field = [CHR 0x5C, CHR ''.'']
       \<or> list_ex (\<lambda>c. c = CHR 0x0A \<or> c = CHR 0x0D \<or> c = CHR 0x22 \<or> c = CHR '','') field
       \<or> starts_with_space field))"

definition csv_field :: "string \<Rightarrow> string" where
  "csv_field field =
     (if fieldNeedsQuotes field
      then [CHR 0x22] @ concat (map (\<lambda>c. if c = CHR 0x22 then [c, c] else [c]) field) @ [CHR 0x22]
      else field)"

text \<open>\<^verbatim>\<open>writer.Write(record)\<close>: the fields, a comma between two of them, then a line feed.\<close>

definition csv_write :: "string list \<Rightarrow> string" where
  "csv_write record = join (map csv_field record) '','' @ [CHR 0x0A]"

subsection \<open>The encoder of package encoding/json\<close>

text \<open>
  \<^verbatim>\<open>json.MarshalIndent(v, "", "  ")\<close> of Go 1.21 (the version the repository builds with),
  for the values a row can hold. A string is written between double quotes; the double
  quote and the backslash are escaped with a backslash, the line feed, carriage return and
  tab as \<^verbatim>\<open>\n\<close>, \<^verbatim>\<open>\r\<close>, \<^verbatim>\<open>\t\<close>, the other control bytes and \<^verbatim>\<open><\<close>, \<^verbatim>\<open>>\<close>,
  \<^verbatim>\<open>&\<close> as \<^verbatim>\<open>\u00XX\<close>, the separators U+2028 and U+2029 and a byte that does not
  start a valid UTF-8 sequence (written as U+FFFD) as \<^verbatim>\<open>\uXXXX\<close>.
\<close>

definition hex_char :: "nat \<Rightarrow> char" where
  "hex_char d = ''0123456789abcdef'' ! d"

definition is_cont :: "char \<Rightarrow> bool" where
  "is_cont b = (0x80 \<le> (of_char b :: nat) \<and> (of_char b :: nat) \<le> 0xBF)"

text \<open>The length of the UTF-8 sequence at the head of a string, \<open>0\<close> when the head does
  not start a valid one (\<^verbatim>\<open>utf8.DecodeRuneInString\<close> then yields \<^verbatim>\<open>RuneError\<close> of width 1).\<close>

fun rune_len :: "string \<Rightarrow> nat" where
  "rune_len [] = 0"
| "rune_len (b0 # r) =
     (let c0 = (of_char b0 :: nat) in
      if c0 < 0x80 then 1
      else if 0xC2 \<le> c0 \<and> c0 \<le> 0xDF then
        (case r of b1 # _ \<Rightarrow> if is_cont b1 then 2 else 0 | _ \<Rightarrow> 0)
      else if 0xE0 \<le> c0 \<and> c0 \<le> 0xEF then
        (case r of
           b1 # b2 # _ \<Rightarrow>
             if (if c0 = 0xE0 then 0xA0 else 0x80) \<le> (of_char b1 :: nat)
                \<and> (of_char b1 :: nat) \<le> (if c0 = 0xED then 0x9F else 0xBF) \<and> is_cont b2
             then 3 else 0
         | _ \<Rightarrow> 0)
      else if 0xF0 \<le> c0 \<and> c0 \<le> 0xF4 then
        (case r of
           b1 # b2 # b3 # _ \<Rightarrow>
             if (if c0 = 0xF0 then 0x90 else 0x80) \<le> (of_char b1 :: nat)
                \<and> (of_char b1 :: nat) \<le> (if c0 = 0xF4 then 0x8F else 0xBF)
                \<and> is_cont b2 \<and> is_cont b3
             then 4 else 0
         | _ \<Rightarrow> 0)
      else 0)"

definition json_escape_ascii :: "char \<Rightarrow> string" where
  "json_escape_ascii b =
     (let c = (of_char b :: nat) in
      if b = CHR 0x22 \<or> b = CHR 0x5C then [CHR 0x5C, b]
      else if b = CHR 0x0A then [CHR 0x5C, CHR ''n'']
      else if b = CHR 0x0D then [CHR 0x5C, CHR ''r'']
      else if b = CHR 0x09 then [CHR 0x5C, CHR ''t'']
      else if c < 0x20 \<or> b = CHR ''<'' \<or> b = CHR ''>'' \<or> b = CHR ''&''
      then [CHR 0x5C, CHR ''u'', CHR ''0'', CHR ''0'', hex_char (c div 16), hex_char (c mod 16)]
      else [b])"

function json_escape :: "string \<Rightarrow> string" where
  "json_escape [] = []"
| "json_escape (b # r) =
     (if (of_char b :: nat) < 0x80 then json_escape_ascii b @ json_escape r
      else if rune_len (b # r) = 0 then [CHR 0x5C] @ ''ufffd'' @ json_escape r
      else if take 3 (b # r) = [CHR 0xE2, CHR 0x80, CHR 0xA8]
      then [CHR 0x5C] @ ''u2028'' @ json_escape (drop 3 (b # r))
      else if take 3 (b # r) = [CHR 0xE2, CHR 0x80, CHR 0xA9]
      then [CHR 0x5C] @ ''u2029'' @ json_escape (drop 3 (b # r))
      else take (rune_len (b # r)) (b # r) @ json_escape (drop (rune_len (b # r)) (b # r)))"
  by pat_completeness auto
termination
  by (relation "measure length") auto

definition json_string :: "string \<Rightarrow> string" where
  "json_string s = [CHR 0x22] @ json_escape s @ [CHR 0x22]"

text \<open>
  A \<^verbatim>\<open>float64\<close>: NaN and the infinities are an \<^verbatim>\<open>UnsupportedValueError\<close>. Otherwise the
  shortest digits, in exponent form when the absolute value is nonzero and below
  \<^verbatim>\<open>1e-6\<close> or at least \<^verbatim>\<open>1e21\<close> (two \<^verbatim>\<open>float64\<close> constants: the comparison is one of
  \<^verbatim>\<open>float64\<close> values), with a two-digit exponent \<^verbatim>\<open>e-0X\<close> cut down to \<^verbatim>\<open>e-X\<close>.
\<close>

text \<open>\<open>|x| < |y|\<close> for finite values: the order of the biased exponent, then of the fraction.\<close>

fun f64_abs_less :: "float64 \<Rightarrow> float64 \<Rightarrow> bool" where
  "f64_abs_less (F64 s e f) (F64 s' e' f') = (e < e' \<or> (e = e' \<and> f < f'))"

definition f64_1e21 :: float64 where
  "f64_1e21 = F64 False 1092 0xB1AE4D6E2EF50"

definition f64_1em6 :: float64 where
  "f64_1em6 = F64 False 1003 0x0C6F7A0B5ED8D"

definition json_fmtE :: "string \<Rightarrow> int \<Rightarrow> string" where
  "json_fmtE ds dp =
     (let e = dp - 1 in
      [hd ds] @ (if 1 < length ds then CHR ''.'' # tl ds else [])
      @ [CHR ''e'', if e < 0 then CHR ''-'' else CHR ''+''] @ show_nat (nat \<bar>e\<bar>))"

definition json_float :: "float64 \<Rightarrow> string option" where
  "json_float x =
     (if \<not> f64_finite x then None
      else Some ((if f64_sign x then ''-'' else [])
                 @ (if f64_mant x = 0 then ''0''
                    else case shortest_digits x of (ds, dp) \<Rightarrow>
                           if f64_abs_less x f64_1em6 \<or> \<not> f64_abs_less x f64_1e21
                           then json_fmtE ds dp else fmtF ds dp)))"

definition indent :: "nat \<Rightarrow> string" where
  "indent d = concat (replicate d ''  '')"

definition json_block :: "nat \<Rightarrow> char \<Rightarrow> char \<Rightarrow> string list \<Rightarrow> string" where
  "json_block d opening closing items =
     (if items = [] then [opening, closing]
      else [opening, CHR 0x0A] @ indent (Suc d)
           @ join items ('','' @ [CHR 0x0A] @ indent (Suc d))
           @ [CHR 0x0A] @ indent d @ [closing])"

text \<open>The value at nesting depth \<open>d\<close>; \<open>None\<close> when the encoder fails.\<close>

function json_value :: "nat \<Rightarrow> value \<Rightarrow> string option" where
  "json_value d Null = Some ''null''"
| "json_value d (Str s) = Some (json_string s)"
| "json_value d (Num x) = json_float x"
| "json_value d (Bool b) = Some (if b then ''true'' else ''false'')"
| "json_value d (Arr xs) =
     map_option (json_block d CHR ''['' CHR '']'') (those (map (json_value (Suc d)) xs))"
| "json_value d (Obj kvs) =
     map_option (json_block d CHR ''{'' CHR ''}'')
       (those (map (\<lambda>(k, v). map_option (\<lambda>t. json_string k @ '': '' @ t) (json_value (Suc d) v))
                   (entries kvs)))"
  by pat_completeness auto
termination
  by (relation "measure (\<lambda>(d, v). size v)")
     (auto simp: size_list_estimation' less_Suc_eq_le dest: size_value_entries)

subsection \<open>The four exports\<close>

definition ToCSV :: "(float64 \<Rightarrow> 64 word) \<Rightarrow> row list \<Rightarrow> string list \<Rightarrow> error + string" where
  "ToCSV oor data fieldNames =
     (if length data = 0 then Inl ErrNoData
      else Inr (csv_write fieldNames
                @ concat (map (\<lambda>r. csv_write (row_values (formatValue oor) r fieldNames)) data)))"

definition md_row :: "string list \<Rightarrow> string" where
  "md_row cells = ''| '' @ join cells '' | '' @ '' |'' @ [CHR 0x0A]"

definition md_separator :: "string list \<Rightarrow> string" where
  "md_separator fieldNames = ''|'' @ concat (map (\<lambda>_. ''--------|'') fieldNames) @ [CHR 0x0A]"

definition ToMarkdownTable ::
  "(float64 \<Rightarrow> 64 word) \<Rightarrow> row list \<Rightarrow> string list \<Rightarrow> error + string" where
  "ToMarkdownTable oor data fieldNames =
     (if length data = 0 then Inl ErrNoData
      else Inr (md_row fieldNames @ md_separator fieldNames
                @ concat (map (\<lambda>r. md_row (row_values (formatValue oor) r fieldNames)) data)))"

text \<open>One line of the column list of \<^verbatim>\<open>CREATE TABLE\<close>: the field, its type inferred from
  the first row, a comma unless the field is the last one.\<close>

definition sql_column :: "row \<Rightarrow> nat \<Rightarrow> nat \<times> string \<Rightarrow> string" where
  "sql_column firstRow n = (\<lambda>(i, field).
     ''  '' @ field @ '' '' @ inferSQLType (index firstRow field)
     @ (if int i < int n - 1 then '','' else []) @ [CHR 0x0A])"

definition sql_insert :: "(float64 \<Rightarrow> 64 word) \<Rightarrow> string \<Rightarrow> string list \<Rightarrow> row \<Rightarrow> string" where
  "sql_insert oor tableName fieldNames r =
     ''INSERT INTO '' @ tableName @ '' ('' @ join fieldNames '', '' @ '') VALUES (''
     @ join (row_values (formatSQLValue oor) r fieldNames) '', '' @ '');'' @ [CHR 0x0A]"

definition ToSQL ::
  "(float64 \<Rightarrow> 64 word) \<Rightarrow> row list \<Rightarrow> string list \<Rightarrow> string \<Rightarrow> error + string" where
  "ToSQL oor data fieldNames tableName0 =
     (if length data = 0 then Inl ErrNoData
      else
        let tableName = (if tableName0 = [] then ''mock_data'' else tableName0);
            firstRow = hd data
        in Inr (''-- Generated data'' @ [CHR 0x0A]
                @ ''-- Table: '' @ tableName @ [CHR 0x0A, CHR 0x0A]
                @ ''CREATE TABLE IF NOT EXISTS '' @ tableName @ '' ('' @ [CHR 0x0A]
                @ concat (map (sql_column firstRow (length fieldNames)) (enumerate 0 fieldNames))
                @ '');'' @ [CHR 0x0A, CHR 0x0A]
                @ concat (map (sql_insert oor tableName fieldNames) data)))"


text \<open>
  \<^verbatim>\<open>ToJSON\<close> marshals the map with the keys \<^verbatim>\<open>fields\<close>, \<^verbatim>\<open>data\<close> and \<^verbatim>\<open>count\<close>; the
  encoder writes the keys in increasing order, that is \<^verbatim>\<open>count\<close>, \<^verbatim>\<open>data\<close>, \<^verbatim>\<open>fields\<close>.
  The count is a Go \<^verbatim>\<open>int\<close> and is written in decimal.
\<close>

definition ToJSON :: "row list \<Rightarrow> string list \<Rightarrow> error + string" where
  "ToJSON data fieldNames =
     (case those [Some (show_nat (length data)),
                  json_value 1 (Arr (map Obj data)),
                  json_value 1 (Arr (map Str fieldNames))] of
        None \<Rightarrow> Inl ErrMarshal
      | Some items \<Rightarrow>
          Inr (json_block 0 CHR ''{'' CHR ''}''
                 (map (\<lambda>(k, t). json_string k @ '': '' @ t) (zip [''count'', ''data'', ''fields''] items))))"

section \<open>Definitions that follow the words of the specification\<close>



text \<open>The conversion \<^verbatim>\<open>int64(v)\<close> of amd64 for a value out of range.\<close>

definition oor_amd64 :: "float64 \<Rightarrow> 64 word" where
  "oor_amd64 v = 0x8000000000000000"

text \<open>The lines of an output: the pieces between line feeds (a last piece that is not
  closed by a line feed counts when it is not empty).\<close>

fun split_acc :: "string \<Rightarrow> string \<Rightarrow> string list" where
  "split_acc cur [] = (if cur = [] then [] else [rev cur])"
| "split_acc cur (c # cs) =
     (if c = CHR 0x0A then rev cur # split_acc [] cs else split_acc (c # cur) cs)"

definition lines_of :: "string \<Rightarrow> string list" where
  "lines_of s = split_acc [] s"

text \<open>The delimited-text output as the specification words it: the field names joined by
  commas, then for every row the formatted cells joined by commas, each line closed by a
  line feed.\<close>

definition csv_as_specified ::
  "(float64 \<Rightarrow> 64 word) \<Rightarrow> row list \<Rightarrow> string list \<Rightarrow> string" where
  "csv_as_specified oor data fieldNames =
     join fieldNames '','' @ [CHR 0x0A]
     @ concat (map (\<lambda>r. join (row_values (formatValue oor) r fieldNames) '','' @ [CHR 0x0A]) data)"



section \<open>The empty dataset\<close>

text \<open>
  Claim C2. With no rows, \<^verbatim>\<open>ToCSV\<close>, \<^verbatim>\<open>ToMarkdownTable\<close> and \<^verbatim>\<open>ToSQL\<close> fail with the
  error "no data to export" whatever the field list (and table name) is, and return no
  bytes: the result is the error alone. \<^verbatim>\<open>ToJSON\<close> never returns that error.
\<close>

theorem empty_dataset:
  "ToCSV oor [] fieldNames = Inl ErrNoData
   \<and> ToMarkdownTable oor [] fieldNames = Inl ErrNoData
   \<and> ToSQL oor [] fieldNames tableName = Inl ErrNoData
   \<and> ToJSON data fieldNames \<noteq> Inl ErrNoData"
proof -
  have "ToJSON data fieldNames \<noteq> Inl ErrNoData"
    unfolding ToJSON_def by (simp split: option.split)
  then show ?thesis
    by (simp add: ToCSV_def ToMarkdownTable_def ToSQL_def)
qed

section \<open>The SQL export\<close>

lemma sql_columns_join:
  "concat (map (sql_column r (k + length fs)) (enumerate k fs)) =
     (if fs = [] then []
      else join (map (\<lambda>f. ''  '' @ f @ '' '' @ inferSQLType (index r f)) fs) ('','' @ [CHR 0x0A])
           @ [CHR 0x0A])"
proof (induction fs arbitrary: k)
  case Nil
  then show ?case by simp
next
  case (Cons f fs)
  have step: "concat (map (sql_column r (Suc k + length fs)) (enumerate (Suc k) fs)) =
     (if fs = [] then []
      else join (map (\<lambda>f. ''  '' @ f @ '' '' @ inferSQLType (index r f)) fs) ('','' @ [CHR 0x0A])
           @ [CHR 0x0A])"
    using Cons.IH [of "Suc k"] .
  show ?case
  proof (cases fs)
    case Nil
    then show ?thesis by (simp add: sql_column_def)
  next
    case (Cons g gs)
    with step show ?thesis by (simp add: sql_column_def)
  qed
qed

lemma inferSQLType_cases:
  "inferSQLType v = (case v of Num x \<Rightarrow> ''NUMERIC'' | Bool b \<Rightarrow> ''BOOLEAN'' | _ \<Rightarrow> ''TEXT'')"
  by (cases v) simp_all

text \<open>
  Claim C5. For a dataset with first row \<open>r\<close>, the output of \<^verbatim>\<open>ToSQL\<close> is the comment block,
  then \<^verbatim>\<open>CREATE TABLE IF NOT EXISTS <table> (\<close>, then one line per field in the order of the
  field list (separated by commas), each the field and the type inferred from the cell of
  the first row alone: \<^verbatim>\<open>NUMERIC\<close> for a number, \<^verbatim>\<open>BOOLEAN\<close> for a boolean, \<^verbatim>\<open>TEXT\<close> for
  null, for a missing key, for a string and for anything else; then \<^verbatim>\<open>);\<close> and the
  insert statements. The later rows \<open>rs\<close> do not occur in the column list, so a column
  whose first cell is null is a \<^verbatim>\<open>TEXT\<close> column even if a later row holds a number.
\<close>

theorem sql_create_table:
  "ToSQL oor (r # rs) fieldNames tableName =
     Inr (''-- Generated data'' @ [CHR 0x0A]
          @ ''-- Table: '' @ (if tableName = [] then ''mock_data'' else tableName)
          @ [CHR 0x0A, CHR 0x0A]
          @ ''CREATE TABLE IF NOT EXISTS '' @ (if tableName = [] then ''mock_data'' else tableName)
          @ '' ('' @ [CHR 0x0A]
          @ (if fieldNames = [] then []
             else join (map (\<lambda>f. ''  '' @ f @ '' ''
                                   @ (case index r f of
                                        Num x \<Rightarrow> ''NUMERIC''
                                      | Bool b \<Rightarrow> ''BOOLEAN''
                                      | _ \<Rightarrow> ''TEXT'')) fieldNames)
                       ('','' @ [CHR 0x0A])
                  @ [CHR 0x0A])
          @ '');'' @ [CHR 0x0A, CHR 0x0A]
          @ concat (map (sql_insert oor (if tableName = [] then ''mock_data'' else tableName)
                           fieldNames) (r # rs)))"
proof -
  have cols: "concat (map (sql_column r (length fieldNames)) (enumerate 0 fieldNames)) =
     (if fieldNames = [] then []
      else join (map (\<lambda>f. ''  '' @ f @ '' ''
                            @ (case index r f of
                                 Num x \<Rightarrow> ''NUMERIC''
                               | Bool b \<Rightarrow> ''BOOLEAN''
                               | _ \<Rightarrow> ''TEXT'')) fieldNames)
                ('','' @ [CHR 0x0A]) @ [CHR 0x0A])"
    using sql_columns_join [of r 0 fieldNames] by (simp add: inferSQLType_cases)
  show ?thesis
    by (simp add: ToSQL_def Let_def cols)
qed

text \<open>The instance of the specification: the first row holds null in column \<open>n\<close>, the
  second row a number; the column is declared \<^verbatim>\<open>TEXT\<close>.\<close>

lemma null_first_column_is_text:
  "\<exists>rest. ToSQL oor [[(''n'', Null)], [(''n'', Num (F64 False 1023 0))]] [''n''] ''t'' =
     Inr (''-- Generated data'' @ [CHR 0x0A] @ ''-- Table: t'' @ [CHR 0x0A, CHR 0x0A]
          @ ''CREATE TABLE IF NOT EXISTS t ('' @ [CHR 0x0A] @ ''  n TEXT'' @ [CHR 0x0A]
          @ '');'' @ [CHR 0x0A, CHR 0x0A] @ rest)"
  by (simp add: ToSQL_def Let_def sql_column_def index_def)


section \<open>The Markdown export\<close>



text \<open>
  Claim C10. \<^verbatim>\<open>ToMarkdownTable\<close> copies a string cell into its row as it is, whatever it
  holds. A cell that holds \<^verbatim>\<open>x | y\<close> gives a data line with two cells for the one field;
  a cell that holds a line feed spreads its row over two lines, so the output of one row
  has four lines. \<^verbatim>\<open>ToCSV\<close> puts a cell that holds its delimiter or a line feed between
  double quotes.
\<close>

theorem markdown_no_escaping:
  "ToMarkdownTable oor [[(''a'', Str s)]] [''a''] =
     Inr (''| a |'' @ [CHR 0x0A] @ ''|--------|'' @ [CHR 0x0A] @ ''| '' @ s @ '' |'' @ [CHR 0x0A])
   \<and> lines_of (projr (ToMarkdownTable oor [[(''a'', Str ''x | y'')]] [''a''])) =
       [''| a |'', ''|--------|'', ''| x | y |'']
   \<and> lines_of (projr (ToMarkdownTable oor [[(''a'', Str (''x'' @ [CHR 0x0A] @ ''y''))]] [''a''])) =
       [''| a |'', ''|--------|'', ''| x'', ''y |'']
   \<and> ToCSV oor [[(''a'', Str ''x,y'')]] [''a''] =
       Inr (''a'' @ [CHR 0x0A] @ [CHR 0x22] @ ''x,y'' @ [CHR 0x22] @ [CHR 0x0A])
   \<and> ToCSV oor [[(''a'', Str (''x'' @ [CHR 0x0A] @ ''y''))]] [''a''] =
       Inr (''a'' @ [CHR 0x0A] @ [CHR 0x22] @ ''x'' @ [CHR 0x0A] @ ''y'' @ [CHR 0x22] @ [CHR 0x0A])"
  by (simp add: ToMarkdownTable_def md_row_def md_separator_def row_values_def index_def lines_of_def
      ToCSV_def csv_write_def csv_field_def fieldNeedsQuotes_def starts_with_space_def
      unicode_spaces_def)

section \<open>A missing key\<close>

lemma index_update_null:
  assumes "map_of r f = None" and "map_of r' = (map_of r)(f \<mapsto> Null)"
  shows "index r' = index r"
proof
  fix k
  show "index r' k = index r k"
    using assms by (cases "k = f") (simp_all add: index_def)
qed

lemma ToCSV_index:
  "map index data = map index data' \<Longrightarrow> ToCSV oor data fs = ToCSV oor data' fs"
proof -
  assume eq: "map index data = map index data'"
  then have len: "length data = length data'" by (metis length_map)
  have "map (\<lambda>r. csv_write (row_values (formatValue oor) r fs)) data =
        map (\<lambda>i. csv_write (map (\<lambda>field. formatValue oor (i field)) fs)) (map index data)"
    by (simp add: row_values_def comp_def)
  also have "\<dots> = map (\<lambda>r. csv_write (row_values (formatValue oor) r fs)) data'"
    unfolding eq by (simp add: row_values_def comp_def)
  finally show ?thesis using len by (simp add: ToCSV_def)
qed

lemma ToMarkdownTable_index:
  "map index data = map index data' \<Longrightarrow> ToMarkdownTable oor data fs = ToMarkdownTable oor data' fs"
proof -
  assume eq: "map index data = map index data'"
  then have len: "length data = length data'" by (metis length_map)
  have "map (\<lambda>r. md_row (row_values (formatValue oor) r fs)) data =
        map (\<lambda>i. md_row (map (\<lambda>field. formatValue oor (i field)) fs)) (map index data)"
    by (simp add: row_values_def comp_def)
  also have "\<dots> = map (\<lambda>r. md_row (row_values (formatValue oor) r fs)) data'"
    unfolding eq by (simp add: row_values_def comp_def)
  finally show ?thesis using len by (simp add: ToMarkdownTable_def)
qed

lemma ToSQL_index:
  "map index data = map index data' \<Longrightarrow> ToSQL oor data fs t = ToSQL oor data' fs t"
proof -
  assume eq: "map index data = map index data'"
  then have len: "length data = length data'" by (metis length_map)
  have ins: "map (sql_insert oor tn fs) data = map (sql_insert oor tn fs) data'" for tn
  proof -
    have "map (sql_insert oor tn fs) data =
          map (\<lambda>i. ''INSERT INTO '' @ tn @ '' ('' @ join fs '', '' @ '') VALUES (''
                    @ join (map (\<lambda>field. formatSQLValue oor (i field)) fs) '', ''
                    @ '');'' @ [CHR 0x0A]) (map index data)"
      by (simp add: sql_insert_def row_values_def comp_def)
    also have "\<dots> = map (sql_insert oor tn fs) data'"
      unfolding eq by (simp add: sql_insert_def row_values_def comp_def)
    finally show ?thesis .
  qed
  show ?thesis
  proof (cases data)
    case Nil
    with len show ?thesis by (simp add: ToSQL_def)
  next
    case (Cons r rs)
    with len obtain r' rs' where c': "data' = r' # rs'" by (cases data') auto
    from eq Cons c' have hd: "index r = index r'" by simp
    have col: "sql_column r n = sql_column r' n" for n
      by (rule ext) (simp add: sql_column_def hd split: prod.split)
    show ?thesis
      using ins [of "if t = [] then ''mock_data'' else t"]
      by (simp add: ToSQL_def Let_def Cons c' col)
  qed
qed

text \<open>
  Claim C9, as amended. In the three exports that go through the field list
  (\<^verbatim>\<open>ToCSV\<close>, \<^verbatim>\<open>ToMarkdownTable\<close>, \<^verbatim>\<open>ToSQL\<close>), a row \<open>r\<close> that lacks the key \<open>f\<close> and a
  row \<open>r'\<close> that is \<open>r\<close> with \<open>f\<close> mapped to null give the same output, wherever the row
  stands in the dataset and whatever the field list is.
\<close>

theorem missing_key_as_null:
  assumes "map_of r f = None" and "map_of r' = (map_of r)(f \<mapsto> Null)"
  shows "ToCSV oor (xs @ r # ys) fieldNames = ToCSV oor (xs @ r' # ys) fieldNames
       \<and> ToMarkdownTable oor (xs @ r # ys) fieldNames = ToMarkdownTable oor (xs @ r' # ys) fieldNames
       \<and> ToSQL oor (xs @ r # ys) fieldNames tableName = ToSQL oor (xs @ r' # ys) fieldNames tableName"
proof -
  have "map index (xs @ r # ys) = map index (xs @ r' # ys)"
    using index_update_null [OF assms] by simp
  then show ?thesis
    using ToCSV_index ToMarkdownTable_index ToSQL_index by blast
qed

theorem missing_key_as_null_witness:
  "ToCSV oor_amd64 [[(''id'', Num (F64 False 1023 0))]] [''id'', ''name''] =
     ToCSV oor_amd64 [[(''name'', Null), (''id'', Num (F64 False 1023 0))]] [''id'', ''name'']
   \<and> ToMarkdownTable oor_amd64 [[(''id'', Num (F64 False 1023 0))]] [''id'', ''name''] =
     ToMarkdownTable oor_amd64 [[(''name'', Null), (''id'', Num (F64 False 1023 0))]] [''id'', ''name'']
   \<and> ToSQL oor_amd64 [[(''id'', Num (F64 False 1023 0))]] [''id'', ''name''] ''t'' =
     ToSQL oor_amd64 [[(''name'', Null), (''id'', Num (F64 False 1023 0))]] [''id'', ''name''] ''t''"
  using missing_key_as_null [of "[(''id'', Num (F64 False 1023 0))]" "''name''"
      "[(''name'', Null), (''id'', Num (F64 False 1023 0))]" oor_amd64 "[]" "[]"
      "[''id'', ''name'']" "''t''"]
  by (simp add: fun_upd_def)

text \<open>The claim as it is stated, for every export format, fails on \<^verbatim>\<open>ToJSON\<close>, which
  writes the keys a row holds and not the fields: the row without the key is an empty
  object, the row with the key mapped to null is not.\<close>

theorem missing_key_json_counterexample:
  "ToJSON [[]] [''a''] \<noteq> ToJSON [[(''a'', Null)]] [''a'']"
  by (simp add: ToJSON_def json_block_def json_string_def json_escape_ascii_def indent_def
      entries_def)

section \<open>The CSV export\<close>

lemma csv_write_plain:
  "list_all (\<lambda>c. \<not> fieldNeedsQuotes c) record \<Longrightarrow> csv_write record = join record '','' @ [CHR 0x0A]"
proof -
  assume "list_all (\<lambda>c. \<not> fieldNeedsQuotes c) record"
  then have "map csv_field record = record"
    by (intro map_idI) (simp add: list_all_iff csv_field_def)
  then show ?thesis by (simp add: csv_write_def)
qed

text \<open>
  Claim C3, as amended. For a dataset that is not empty, the output of \<^verbatim>\<open>ToCSV\<close> is the
  record of the field names and then one record per row, in the order of the rows, whose
  fields are \<^verbatim>\<open>formatValue\<close> of the cells in the order of the field list. A record is
  written by the CSV writer: a field that needs it is put between double quotes, the
  fields are joined by commas and the record is closed by a line feed. When no field name
  and no cell needs quotes, the output is the field names joined by commas and, for each
  row, the formatted cells joined by commas, line by line.
\<close>

theorem csv_export:
  "ToCSV oor (r # rs) fieldNames =
     Inr (csv_write fieldNames
          @ concat (map (\<lambda>row. csv_write (map (\<lambda>f. formatValue oor (index row f)) fieldNames))
                        (r # rs)))
   \<and> (list_all (\<lambda>c. \<not> fieldNeedsQuotes c)
         (fieldNames @ concat (map (\<lambda>row. map (\<lambda>f. formatValue oor (index row f)) fieldNames)
                                   (r # rs)))
        \<longrightarrow> ToCSV oor (r # rs) fieldNames = Inr (csv_as_specified oor (r # rs) fieldNames))"
proof -
  have first: "ToCSV oor (r # rs) fieldNames =
     Inr (csv_write fieldNames
          @ concat (map (\<lambda>row. csv_write (map (\<lambda>f. formatValue oor (index row f)) fieldNames))
                        (r # rs)))"
    by (simp add: ToCSV_def row_values_def)
  have second: "ToCSV oor (r # rs) fieldNames = Inr (csv_as_specified oor (r # rs) fieldNames)"
    if plain: "list_all (\<lambda>c. \<not> fieldNeedsQuotes c)
         (fieldNames @ concat (map (\<lambda>row. map (\<lambda>f. formatValue oor (index row f)) fieldNames)
                                   (r # rs)))"
  proof -
    from plain have h: "list_all (\<lambda>c. \<not> fieldNeedsQuotes c) fieldNames"
      by simp
    from plain have rows: "list_all (\<lambda>c. \<not> fieldNeedsQuotes c)
        (map (\<lambda>f. formatValue oor (index row f)) fieldNames)" if "row \<in> set (r # rs)" for row
      using that by (auto simp: list_all_iff)
    have meq: "map (\<lambda>row. csv_write (map (\<lambda>f. formatValue oor (index row f)) fieldNames)) (r # rs) =
          map (\<lambda>row. join (map (\<lambda>f. formatValue oor (index row f)) fieldNames) '','' @ [CHR 0x0A])
              (r # rs)"
      by (rule map_cong [OF refl]) (use rows csv_write_plain in blast)
    show ?thesis
      unfolding first csv_as_specified_def row_values_def csv_write_plain [OF h] meq
      by (simp only: append_assoc)
  qed
  from first second show ?thesis by blast
qed

text \<open>The example of the specification: two rows, three fields.\<close>

theorem csv_export_witness:
  "lines_of (projr (ToCSV oor_amd64
       [[(''id'', Num (float64_of_int64 1)), (''name'', Str ''John''), (''age'', Num (float64_of_int64 30))],
        [(''id'', Num (float64_of_int64 2)), (''name'', Str ''Jane''), (''age'', Num (float64_of_int64 25))]]
       [''id'', ''name'', ''age''])) =
     [''id,name,age'', ''1,John,30'', ''2,Jane,25'']"
  using csv_export [of oor_amd64
       "[(''id'', Num (float64_of_int64 1)), (''name'', Str ''John''), (''age'', Num (float64_of_int64 30))]"
       "[[(''id'', Num (float64_of_int64 2)), (''name'', Str ''Jane''), (''age'', Num (float64_of_int64 25))]]"
       "[''id'', ''name'', ''age'']"]
  by (simp add: csv_as_specified_def csv_write_def csv_field_def row_values_def lines_of_def index_def
      fieldNeedsQuotes_def starts_with_space_def unicode_spaces_def
      is_integral_def float64_of_int64_def int64_of_float64_def f64_trunc_def f64_eq_def
      f64_is_zero_def fmt_d_def show_int_def Let_def digit_char_def)

text \<open>The claim as it is stated, with every cell written as \<^verbatim>\<open>formatValue\<close> gives it,
  fails on a cell that holds a comma: the writer puts it between double quotes.\<close>

theorem csv_export_counterexample:
  "ToCSV oor_amd64 [[(''a'', Str ''x,y'')]] [''a''] \<noteq>
     Inr (csv_as_specified oor_amd64 [[(''a'', Str ''x,y'')]] [''a''])"
  by (simp add: ToCSV_def csv_as_specified_def csv_write_def csv_field_def row_values_def index_def
      fieldNeedsQuotes_def starts_with_space_def unicode_spaces_def)

end
